theory Spec2Isabelle
  imports Main
begin

section \<open>The LinkedIn OAuth2 modal: callback handshake and navigation intercept\<close>

text \<open>
  A shallow embedding of \<^verbatim>\<open>src/src/index.tsx\<close>: the asynchronous function
  \<^verbatim>\<open>handleAuthCallback\<close> (lines 300-391) and the navigation intercept
  \<^verbatim>\<open>handleNavigationStateChange\<close> of the component (lines 469-505).

  \<^item> Strings are \<open>string\<close>; a character beyond ASCII is the bytes of its UTF-8 form.
  \<^item> Everything the code reaches outside itself is recorded as an \<open>event\<close> in a trace, in
    the order in which it happens: calls of the loading-flag setter, calls of
    \<^verbatim>\<open>fetch\<close>, and calls of the host's callbacks.
  \<^item> A \<^verbatim>\<open>throw\<close>, a rejected promise and a \<^verbatim>\<open>TypeError\<close> of the
    runtime are values: a computation returns \<open>Inl\<close> of what was thrown, or \<open>Inr\<close> of
    its result, together with the trace.
  \<^item> \<^verbatim>\<open>await\<close> is sequencing: the model runs the asynchronous function to its
    end, and every awaited promise settles (fulfilled or rejected).
  \<^item> The runtime (the \<^verbatim>\<open>URL\<close> class, \<^verbatim>\<open>fetch\<close>, string
    conversion, the lower-casing of characters beyond ASCII) is a parameter, the record
    \<open>platform\<close>; the theorems hold for every platform. \<open>whatwg_searchParams\<close> below is one concrete \<^verbatim>\<open>URL\<close> class.
\<close>

subsection \<open>Strings\<close>

text \<open>\<^verbatim>\<open>s.startsWith(p)\<close> and \<^verbatim>\<open>s.includes(p)\<close>.\<close>

fun startsWith :: "string \<Rightarrow> string \<Rightarrow> bool" where
  "startsWith s [] = True"
| "startsWith [] (p # ps) = False"
| "startsWith (c # cs) (p # ps) = (c = p \<and> startsWith cs ps)"

fun includes_str :: "string \<Rightarrow> string \<Rightarrow> bool" where
  "includes_str [] p = (p = [])"
| "includes_str (c # cs) p = (startsWith (c # cs) p \<or> includes_str cs p)"

text \<open>
  The part of \<^verbatim>\<open>s.toLowerCase()\<close> that is the same on every runtime: an ASCII
  character is lower-cased on its own, whatever surrounds it (A to Z become a to z, every
  other ASCII character stays).
\<close>

definition is_ascii :: "char \<Rightarrow> bool" where
  "is_ascii c = ((of_char c :: nat) < 128)"

definition toLowerCase_ascii :: "char \<Rightarrow> char" where
  "toLowerCase_ascii c =
     (let n = (of_char c :: nat) in if 65 \<le> n \<and> n \<le> 90 then char_of (n + 32) else c)"

subsection \<open>Values, exceptions, requests and responses\<close>

text \<open>
  A value decoded from a JSON body. Numbers are integers here: the code does nothing with
  a number but test whether it is zero and convert it to a string. \<open>JObj\<close> lists the
  members of an object, each key once.
\<close>

datatype json =
    JNull
  | JBool bool
  | JNum int
  | JStr string
  | JArr "json list"
  | JObj "(string \<times> json) list"

text \<open>
  What a \<^verbatim>\<open>throw\<close> or a rejected promise carries: an instance of
  \<^verbatim>\<open>Error\<close> (or of a subclass such as \<^verbatim>\<open>TypeError\<close>) with its
  message, or any other value.
\<close>

datatype thrown = Error string | NonError

text \<open>
  The two arguments of \<^verbatim>\<open>fetch\<close>, and the part of its response the code
  reads; \<open>json\<close> is what the promise of \<^verbatim>\<open>response.json()\<close> settles to
  (it rejects with a \<^verbatim>\<open>SyntaxError\<close> when the body is empty or is not JSON).
\<close>

record request =
  resource :: string
  method_str :: string
  headers :: "(string \<times> string) list"
  body :: "string option"

record response =
  ok :: bool
  statusText :: string
  json :: "thrown + json"

datatype event =
    SetIsLoading bool
  | Fetch request
  | OnSuccess json
  | OnError string
  | OnClose

type_synonym trace = "event list"

text \<open>
  The runtime: \<open>URL_searchParams u\<close> is \<^verbatim>\<open>new URL(u).searchParams\<close> as the
  list of its name-value pairs, or what the constructor throws; \<open>fetch\<close> settles to a
  response or rejects; \<open>ToString\<close> converts a value that is not a string to a string;
  \<open>TypeError_null k\<close> is the message of the \<^verbatim>\<open>TypeError\<close> for reading
  or destructuring property \<open>k\<close> of \<^verbatim>\<open>null\<close>; \<open>toLowerCase_other s i\<close> is
  what the byte at place \<open>i\<close> of \<open>s\<close>, a byte of a character beyond ASCII, contributes
  to \<^verbatim>\<open>s.toLowerCase()\<close>. The Unicode mapping decides it: it may depend on the
  rest of the string, and it may be ASCII (the Kelvin sign U+212A lower-cases to
  \<^verbatim>\<open>k\<close>).
\<close>

record platform =
  URL_searchParams :: "string \<Rightarrow> thrown + (string \<times> string) list"
  fetch :: "request \<Rightarrow> thrown + response"
  ToString :: "json \<Rightarrow> string"
  TypeError_null :: "string \<Rightarrow> string"
  toLowerCase_other :: "string \<Rightarrow> nat \<Rightarrow> string"

text \<open>\<^verbatim>\<open>s.toLowerCase()\<close>, byte by byte.\<close>

definition toLowerCase :: "platform \<Rightarrow> string \<Rightarrow> string" where
  "toLowerCase pf s =
     concat (map (\<lambda>i. if is_ascii (s ! i) then [toLowerCase_ascii (s ! i)]
                       else toLowerCase_other pf s i)
               [0..<length s])"

text \<open>\<^verbatim>\<open>searchParams.get(name)\<close>: the first value of that name, or null.\<close>

definition searchParams_get :: "(string \<times> string) list \<Rightarrow> string \<Rightarrow> string option" where
  "searchParams_get params name = map_of params name"

text \<open>
  Truthiness. A string or null, as \<^verbatim>\<open>get\<close> returns it, is truthy when it
  is a non-empty string; \<open>truthy_string\<close> returns the string in that case. A property
  read from a value is \<open>None\<close> when it is \<^verbatim>\<open>undefined\<close>.
\<close>

definition truthy_string :: "string option \<Rightarrow> string option" where
  "truthy_string v = (case v of None \<Rightarrow> None | Some s \<Rightarrow> if s = [] then None else Some s)"

fun truthy :: "json option \<Rightarrow> json option" where
  "truthy None = None"
| "truthy (Some JNull) = None"
| "truthy (Some (JBool b)) = (if b then Some (JBool b) else None)"
| "truthy (Some (JNum n)) = (if n = 0 then None else Some (JNum n))"
| "truthy (Some (JStr s)) = (if s = [] then None else Some (JStr s))"
| "truthy (Some (JArr xs)) = Some (JArr xs)"
| "truthy (Some (JObj kvs)) = Some (JObj kvs)"

text \<open>
  \<^verbatim>\<open>v.k\<close> for one of the keys the code reads (\<^verbatim>\<open>error_description\<close>,
  \<^verbatim>\<open>message\<close>, \<^verbatim>\<open>access_token\<close>): a \<^verbatim>\<open>TypeError\<close>
  on null, the member of an object, and undefined on every other value.
\<close>

definition get_prop :: "platform \<Rightarrow> json \<Rightarrow> string \<Rightarrow> thrown + json option" where
  "get_prop pf v k =
     (case v of
        JNull \<Rightarrow> Inl (Error (TypeError_null pf k))
      | JObj kvs \<Rightarrow> Inr (map_of kvs k)
      | _ \<Rightarrow> Inr None)"

definition js_ToString :: "platform \<Rightarrow> json \<Rightarrow> string" where
  "js_ToString pf v = (case v of JStr s \<Rightarrow> s | _ \<Rightarrow> ToString pf v)"

subsection \<open>Computations\<close>

text \<open>
  A computation extends the trace and either returns or throws. A callback is given by
  the events its call leaves in the trace and by what it throws, if it throws. A
  dispatcher of React state (\<^verbatim>\<open>Dispatch<SetStateAction<boolean>>\<close>) is a
  callback that returns: it is given by its events alone.
\<close>

type_synonym 'a io = "trace \<Rightarrow> (thrown + 'a) \<times> trace"

type_synonym 'a callback = "'a \<Rightarrow> event list \<times> thrown option"

type_synonym 'a dispatch = "'a \<Rightarrow> event list"

definition io_return :: "'a \<Rightarrow> 'a io" where
  "io_return x tr = (Inr x, tr)"

definition io_throw :: "thrown \<Rightarrow> 'a io" where
  "io_throw e tr = (Inl e, tr)"

definition io_of :: "thrown + 'a \<Rightarrow> 'a io" where
  "io_of r tr = (r, tr)"

definition io_bind :: "'a io \<Rightarrow> ('a \<Rightarrow> 'b io) \<Rightarrow> 'b io" where
  "io_bind m f tr = (case m tr of (Inl e, tr') \<Rightarrow> (Inl e, tr') | (Inr x, tr') \<Rightarrow> f x tr')"

definition call :: "'a callback \<Rightarrow> 'a \<Rightarrow> unit io" where
  "call cb x tr =
     ((case snd (cb x) of None \<Rightarrow> Inr () | Some e \<Rightarrow> Inl e), tr @ fst (cb x))"

definition dispatch :: "'a dispatch \<Rightarrow> 'a \<Rightarrow> unit io" where
  "dispatch d x tr = (Inr (), tr @ d x)"

definition do_fetch :: "platform \<Rightarrow> request \<Rightarrow> response io" where
  "do_fetch pf rq tr = (fetch pf rq, tr @ [Fetch rq])"

text \<open>
  \<^verbatim>\<open>try { blk } catch (error) { handler } finally { fin }\<close>: the handler runs
  when \<open>blk\<close> throws, \<open>fin\<close> runs in every case, and what \<open>fin\<close> throws replaces
  what the handler threw.
\<close>

definition try_catch_finally :: "unit io \<Rightarrow> (thrown \<Rightarrow> unit io) \<Rightarrow> unit io \<Rightarrow> unit io" where
  "try_catch_finally blk handler fin tr =
     (case blk tr of (r1, tr1) \<Rightarrow>
        (case (case r1 of Inl e \<Rightarrow> handler e tr1 | Inr u \<Rightarrow> (Inr u, tr1)) of (r2, tr2) \<Rightarrow>
           (case fin tr2 of (Inl e3, tr3) \<Rightarrow> (Inl e3, tr3) | (Inr u, tr3) \<Rightarrow> (r2, tr3))))"

subsection \<open>\<^verbatim>\<open>URLSearchParams.toString\<close>\<close>

text \<open>
  The application/x-www-form-urlencoded serialiser: letters, digits and \<^verbatim>\<open>*-._\<close>
  stand for themselves, a space becomes \<^verbatim>\<open>+\<close>, every other byte becomes
  \<^verbatim>\<open>%XX\<close>.
\<close>

definition is_ascii_alpha :: "char \<Rightarrow> bool" where
  "is_ascii_alpha c =
     (let n = (of_char c :: nat) in (65 \<le> n \<and> n \<le> 90) \<or> (97 \<le> n \<and> n \<le> 122))"

definition is_ascii_digit :: "char \<Rightarrow> bool" where
  "is_ascii_digit c = (let n = (of_char c :: nat) in 48 \<le> n \<and> n \<le> 57)"

definition hex_digit :: "nat \<Rightarrow> char" where
  "hex_digit n = (''0123456789ABCDEF'' ! (n mod 16))"

definition urlencode_byte :: "char \<Rightarrow> string" where
  "urlencode_byte c =
     (if c = CHR '' '' then ''+''
      else if is_ascii_alpha c \<or> is_ascii_digit c \<or> c \<in> set ''*-._'' then [c]
      else [CHR ''%'', hex_digit (of_char c div 16), hex_digit (of_char c)])"

definition urlencode :: "string \<Rightarrow> string" where
  "urlencode s = concat (map urlencode_byte s)"

fun join_amp :: "string list \<Rightarrow> string" where
  "join_amp [] = []"
| "join_amp [x] = x"
| "join_amp (x # y # ys) = x @ ''&'' @ join_amp (y # ys)"

definition URLSearchParams_toString :: "(string \<times> string) list \<Rightarrow> string" where
  "URLSearchParams_toString params =
     join_amp (map (\<lambda>(k, v). urlencode k @ ''='' @ urlencode v) params)"

subsection \<open>Constants (lines 237-246)\<close>

definition ACCESS_TOKEN :: string where
  "ACCESS_TOKEN = ''https://www.linkedin.com/oauth/v2/accessToken''"

definition USER_INFO :: string where
  "USER_INFO = ''https://api.linkedin.com/v2/userinfo''"

subsection \<open>\<^verbatim>\<open>handleAuthCallback\<close> (lines 300-391)\<close>

record HandleAuthCallbackParams =
  url :: string
  clientId :: string
  clientSecret :: string
  redirectUri :: string
  onSuccess :: "json callback"
  onError :: "string callback"
  setIsLoading :: "bool dispatch"

text \<open>Lines 324-338: the request of the token exchange.\<close>

definition token_request :: "HandleAuthCallbackParams \<Rightarrow> string \<Rightarrow> request" where
  "token_request p authCode =
     \<lparr>resource = ACCESS_TOKEN,
      method_str = ''POST'',
      headers = [(''Content-Type'', ''application/x-www-form-urlencoded'')],
      body = Some (URLSearchParams_toString
        [(''grant_type'', ''authorization_code''),
         (''code'', authCode),
         (''client_id'', clientId p),
         (''client_secret'', clientSecret p),
         (''redirect_uri'', redirectUri p)])\<rparr>"

text \<open>Lines 355-360: the request of the profile.\<close>

definition profile_request :: "string \<Rightarrow> request" where
  "profile_request access_token =
     \<lparr>resource = USER_INFO,
      method_str = ''GET'',
      headers = [(''Authorization'', ''Bearer '' @ access_token)],
      body = None\<rparr>"

text \<open>\<^verbatim>\<open>await response.json().catch(() => ({}))\<close>\<close>

definition json_or_empty :: "response \<Rightarrow> json" where
  "json_or_empty r = (case json r of Inl e \<Rightarrow> JObj [] | Inr v \<Rightarrow> v)"

text \<open>Lines 324-353: the token exchange; it returns the access token.\<close>

definition token_exchange :: "platform \<Rightarrow> HandleAuthCallbackParams \<Rightarrow> string \<Rightarrow> json io" where
  "token_exchange pf p authCode =
     io_bind (do_fetch pf (token_request p authCode)) (\<lambda>tokenResponse.
       if \<not> ok tokenResponse then
         io_bind (io_of (get_prop pf (json_or_empty tokenResponse) ''error_description''))
           (\<lambda>error_description.
              io_throw (Error
                (case truthy error_description of
                   Some d \<Rightarrow> js_ToString pf d
                 | None \<Rightarrow> ''Failed to get access token: '' @ statusText tokenResponse)))
       else
         io_bind (io_of (json tokenResponse)) (\<lambda>tokenData.
         io_bind (io_of (get_prop pf tokenData ''access_token'')) (\<lambda>access_token.
           case truthy access_token of
             None \<Rightarrow> io_throw (Error ''Authentication failed. No access token received.'')
           | Some t \<Rightarrow> io_return t)))"

text \<open>Lines 355-374: the profile fetch; it returns the profile.\<close>

definition fetch_profile :: "platform \<Rightarrow> json \<Rightarrow> json io" where
  "fetch_profile pf access_token =
     io_bind (do_fetch pf (profile_request (js_ToString pf access_token))) (\<lambda>profileResponse.
       if \<not> ok profileResponse then
         io_bind (io_of (get_prop pf (json_or_empty profileResponse) ''message''))
           (\<lambda>message.
              io_throw (Error
                (case truthy message of
                   Some m \<Rightarrow> js_ToString pf m
                 | None \<Rightarrow> ''Failed to fetch profile: '' @ statusText profileResponse)))
       else
         io_bind (io_of (json profileResponse)) (\<lambda>profileData.
           case truthy (Some profileData) of
             None \<Rightarrow> io_throw (Error ''Failed to parse profile data.'')
           | Some d \<Rightarrow> io_return d))"

text \<open>Lines 310-374: the body of the \<^verbatim>\<open>try\<close> up to the profile.\<close>

definition handshake :: "platform \<Rightarrow> HandleAuthCallbackParams \<Rightarrow> json io" where
  "handshake pf p =
     io_bind (dispatch (setIsLoading p) True) (\<lambda>_.
     io_bind (io_of (URL_searchParams pf (url p))) (\<lambda>params.
       let authCode = searchParams_get params ''code'';
           errorDescription = searchParams_get params ''error_description''
       in case truthy_string errorDescription of
            Some d \<Rightarrow> io_throw (Error d)
          | None \<Rightarrow>
             (case truthy_string authCode of
                None \<Rightarrow> io_throw (Error ''Authentication failed. No authorization code found.'')
              | Some c \<Rightarrow> io_bind (token_exchange pf p c) (fetch_profile pf))))"

text \<open>Lines 310-376: the whole body of the \<^verbatim>\<open>try\<close>.\<close>

definition try_block :: "platform \<Rightarrow> HandleAuthCallbackParams \<Rightarrow> unit io" where
  "try_block pf p = io_bind (handshake pf p) (call (onSuccess p))"

text \<open>Lines 377-387: the \<^verbatim>\<open>catch\<close>.\<close>

definition errorMessage :: "thrown \<Rightarrow> string" where
  "errorMessage error = (case error of Error m \<Rightarrow> m | NonError \<Rightarrow> ''An unknown error occurred'')"

definition catch_block :: "platform \<Rightarrow> HandleAuthCallbackParams \<Rightarrow> thrown \<Rightarrow> unit io" where
  "catch_block pf p error =
     (if includes_str (toLowerCase pf (errorMessage error)) ''network request failed''
      then call (onError p) ''Network error. Please check your internet connection.''
      else call (onError p) (errorMessage error))"

definition handleAuthCallback :: "platform \<Rightarrow> HandleAuthCallbackParams \<Rightarrow> unit io" where
  "handleAuthCallback pf p =
     try_catch_finally (try_block pf p) (catch_block pf p) (dispatch (setIsLoading p) False)"

subsection \<open>The component: \<^verbatim>\<open>handleNavigationStateChange\<close> (lines 469-505)\<close>

text \<open>
  The props the intercept reads. A callback of the host is opaque: its call is recorded
  as an event, and it returns (\<open>None\<close>) or throws.
\<close>

record LinkedInModalProps =
  clientId_prop :: string
  clientSecret_prop :: string
  redirectUri_prop :: string
  logout :: bool
  closeOnSuccess :: bool
  onSuccess_prop :: "json \<Rightarrow> thrown option"
  onError_prop :: "string \<Rightarrow> thrown option"
  onClose_prop :: "thrown option"

definition host_onError :: "LinkedInModalProps \<Rightarrow> string callback" where
  "host_onError pr message = ([OnError message], onError_prop pr message)"

definition host_onClose :: "LinkedInModalProps \<Rightarrow> unit callback" where
  "host_onClose pr u = ([OnClose], onClose_prop pr)"

text \<open>
  Lines 483-488: \<^verbatim>\<open>data => { onSuccess(data); if (closeOnSuccess) { onClose(); } }\<close>
\<close>

definition success_continuation :: "LinkedInModalProps \<Rightarrow> json callback" where
  "success_continuation pr data =
     (case onSuccess_prop pr data of
        Some e \<Rightarrow> ([OnSuccess data], Some e)
      | None \<Rightarrow>
          if closeOnSuccess pr then ([OnSuccess data, OnClose], onClose_prop pr)
          else ([OnSuccess data], None))"

text \<open>The setter of \<^verbatim>\<open>useState(false)\<close>, line 460.\<close>

definition useState_setIsLoading :: "bool dispatch" where
  "useState_setIsLoading b = [SetIsLoading b]"

text \<open>The value of the state \<^verbatim>\<open>isLoading\<close> after a trace, from its value before.\<close>

fun isLoading :: "bool \<Rightarrow> trace \<Rightarrow> bool" where
  "isLoading b [] = b"
| "isLoading b (SetIsLoading v # es) = isLoading v es"
| "isLoading b (e # es) = isLoading b es"

text \<open>Kinds of events.\<close>

fun is_fetch :: "event \<Rightarrow> bool" where
  "is_fetch (Fetch rq) = True"
| "is_fetch e = False"

fun is_result_callback :: "event \<Rightarrow> bool" where
  "is_result_callback (OnSuccess d) = True"
| "is_result_callback (OnError m) = True"
| "is_result_callback e = False"

definition auth_params :: "LinkedInModalProps \<Rightarrow> string \<Rightarrow> HandleAuthCallbackParams" where
  "auth_params pr u =
     \<lparr>url = u,
      clientId = clientId_prop pr,
      clientSecret = clientSecret_prop pr,
      redirectUri = redirectUri_prop pr,
      onSuccess = success_continuation pr,
      onError = host_onError pr,
      setIsLoading = useState_setIsLoading\<rparr>"

text \<open>
  The intercept returns whether the navigation may proceed. The call of
  \<^verbatim>\<open>handleAuthCallback\<close> is not awaited: its promise is dropped and the
  intercept returns \<^verbatim>\<open>false\<close>; the trace is that of the handshake run to its
  end.
\<close>

definition handleNavigationStateChange :: "platform \<Rightarrow> LinkedInModalProps \<Rightarrow> string \<Rightarrow> bool io" where
  "handleNavigationStateChange pf pr u tr =
     (if logout pr then (Inr True, tr)
      else if startsWith u (redirectUri_prop pr) \<and> includes_str u ''code='' then
        (Inr False, snd (handleAuthCallback pf (auth_params pr u) tr))
      else if includes_str u ''error='' then
        io_bind (io_of (URL_searchParams pf u)) (\<lambda>params.
          let error = (case truthy_string (searchParams_get params ''error_description'') of
                         Some d \<Rightarrow> d
                       | None \<Rightarrow> ''Unknown error'')
          in io_bind (call (host_onError pr) error) (\<lambda>_.
             io_bind (call (host_onClose pr) ()) (\<lambda>_.
             io_return False))) tr
      else (Inr True, tr))"

text \<open>The three outcomes of the checks of the intercept, in their order.\<close>

datatype navigation_class = RedirectSuccess | RedirectError | PassThrough

definition classify :: "string \<Rightarrow> string \<Rightarrow> navigation_class" where
  "classify redirect u =
     (if startsWith u redirect \<and> includes_str u ''code='' then RedirectSuccess
      else if includes_str u ''error='' then RedirectError
      else PassThrough)"

subsection \<open>A concrete \<^verbatim>\<open>URL\<close> class and a sample platform\<close>

text \<open>
  \<open>whatwg_searchParams\<close> follows the URL Standard where the code depends on it. The
  parser (called without a base URL) strips leading and trailing C0 controls and spaces,
  removes tabs and newlines, and fails unless the input begins with a scheme: an ASCII
  letter, then letters, digits, \<^verbatim>\<open>+\<close>, \<^verbatim>\<open>-\<close> or \<^verbatim>\<open>.\<close>,
  then a colon. The query runs from the first \<^verbatim>\<open>?\<close> to the first
  \<^verbatim>\<open>#\<close>; \<^verbatim>\<open>searchParams\<close> splits it at \<^verbatim>\<open>&\<close>, drops
  empty pieces, splits each piece at its first \<^verbatim>\<open>=\<close>, turns \<^verbatim>\<open>+\<close>
  into a space and decodes \<^verbatim>\<open>%XX\<close>. The validation of host and port is not
  part of this model: it accepts every input that has a scheme.
\<close>

definition is_c0_or_space :: "char \<Rightarrow> bool" where
  "is_c0_or_space c = ((of_char c :: nat) \<le> 32)"

definition is_tab_or_newline :: "char \<Rightarrow> bool" where
  "is_tab_or_newline c = ((of_char c :: nat) \<in> {9, 10, 13})"

definition trim_url :: "string \<Rightarrow> string" where
  "trim_url u =
     filter (\<lambda>c. \<not> is_tab_or_newline c)
       (rev (dropWhile is_c0_or_space (rev (dropWhile is_c0_or_space u))))"

definition is_scheme_char :: "char \<Rightarrow> bool" where
  "is_scheme_char c = (is_ascii_alpha c \<or> is_ascii_digit c \<or> c \<in> set ''+-.'')"

definition has_scheme :: "string \<Rightarrow> bool" where
  "has_scheme u =
     (case u of
        [] \<Rightarrow> False
      | c # cs \<Rightarrow>
          is_ascii_alpha c \<and>
          (case dropWhile is_scheme_char cs of [] \<Rightarrow> False | d # ds \<Rightarrow> d = CHR '':''))"

definition query_of :: "string \<Rightarrow> string" where
  "query_of u =
     (case dropWhile (\<lambda>c. c \<noteq> CHR ''?'') (takeWhile (\<lambda>c. c \<noteq> CHR ''#'') u) of
        [] \<Rightarrow> []
      | q # qs \<Rightarrow> qs)"

fun split_on :: "char \<Rightarrow> string \<Rightarrow> string list" where
  "split_on d [] = [[]]"
| "split_on d (c # cs) =
     (if c = d then [] # split_on d cs
      else (case split_on d cs of [] \<Rightarrow> [[c]] | x # xs \<Rightarrow> (c # x) # xs))"

definition hex_value :: "char \<Rightarrow> nat option" where
  "hex_value c =
     (let n = (of_char c :: nat)
      in if 48 \<le> n \<and> n \<le> 57 then Some (n - 48)
         else if 65 \<le> n \<and> n \<le> 70 then Some (n - 55)
         else if 97 \<le> n \<and> n \<le> 102 then Some (n - 87)
         else None)"

fun percent_decode :: "string \<Rightarrow> string" where
  "percent_decode (c # h # l # cs) =
     (case (c = CHR ''%'', hex_value h, hex_value l) of
        (True, Some a, Some b) \<Rightarrow> char_of (a * 16 + b) # percent_decode cs
      | _ \<Rightarrow> c # percent_decode (h # l # cs))"
| "percent_decode cs = cs"

definition form_decode :: "string \<Rightarrow> string" where
  "form_decode s = percent_decode (map (\<lambda>c. if c = CHR ''+'' then CHR '' '' else c) s)"

definition parse_urlencoded :: "string \<Rightarrow> (string \<times> string) list" where
  "parse_urlencoded q =
     map (\<lambda>piece.
            let name = takeWhile (\<lambda>c. c \<noteq> CHR ''='') piece;
                val = drop (length name + 1) piece
            in (form_decode name, form_decode val))
       (filter (\<lambda>piece. piece \<noteq> []) (split_on (CHR ''&'') q))"

definition whatwg_searchParams :: "string \<Rightarrow> thrown + (string \<times> string) list" where
  "whatwg_searchParams u =
     (if has_scheme (trim_url u) then Inr (parse_urlencoded (query_of (trim_url u)))
      else Inl (Error ''Invalid URL''))"

text \<open>
  The responses of the repository's test of the successful flow
  (\<^verbatim>\<open>mockTokenResponse\<close>, \<^verbatim>\<open>mockProfileResponse\<close>).
\<close>

definition mockTokenResponse :: json where
  "mockTokenResponse =
     JObj [(''access_token'', JStr ''test-access-token''),
           (''expires_in'', JNum 3600),
           (''scope'', JStr ''email''),
           (''token_type'', JStr ''Bearer'')]"

definition mockProfileResponse :: json where
  "mockProfileResponse =
     JObj [(''sub'', JStr ''12345''),
           (''name'', JStr ''Test User''),
           (''given_name'', JStr ''Test''),
           (''family_name'', JStr ''User''),
           (''picture'', JStr ''https://example.com/pic.jpg''),
           (''locale'', JObj [(''country'', JStr ''US''), (''language'', JStr ''en'')]),
           (''email'', JStr ''test@example.com'')]"

definition mock_fetch :: "request \<Rightarrow> thrown + response" where
  "mock_fetch rq =
     (if resource rq = ACCESS_TOKEN
      then Inr \<lparr>ok = True, statusText = ''OK'', json = Inr mockTokenResponse\<rparr>
      else Inr \<lparr>ok = True, statusText = ''OK'', json = Inr mockProfileResponse\<rparr>)"

text \<open>
  A platform to run the code on: the URL class above and the mocked endpoints. Its
  \<^verbatim>\<open>toLowerCase\<close> lower-cases the Kelvin sign (the bytes E2 84 AA) to
  \<^verbatim>\<open>k\<close> and leaves every other byte beyond ASCII as it is. No input below reaches
  \<open>ToString\<close> or \<open>TypeError_null\<close> of this platform, and none has a character
  beyond ASCII but the Kelvin sign.
\<close>

definition kelvin_sign :: string where
  "kelvin_sign = [CHR 0xE2, CHR 0x84, CHR 0xAA]"

definition sample_toLowerCase_other :: "string \<Rightarrow> nat \<Rightarrow> string" where
  "sample_toLowerCase_other s i =
     (if take 3 (drop i s) = kelvin_sign then ''k''
      else if 1 \<le> i \<and> take 3 (drop (i - 1) s) = kelvin_sign then []
      else if 2 \<le> i \<and> take 3 (drop (i - 2) s) = kelvin_sign then []
      else [s ! i])"

definition sample_platform :: platform where
  "sample_platform =
     \<lparr>URL_searchParams = whatwg_searchParams,
      fetch = mock_fetch,
      ToString = (\<lambda>v. ''[object Object]''),
      TypeError_null = (\<lambda>k. ''Cannot read property '' @ k @ '' of null''),
      toLowerCase_other = sample_toLowerCase_other\<rparr>"

text \<open>The props of the repository's tests (\<^verbatim>\<open>defaultProps\<close>), with callbacks that return.\<close>

definition defaultProps :: LinkedInModalProps where
  "defaultProps =
     \<lparr>clientId_prop = ''test-client-id'',
      clientSecret_prop = ''test-client-secret'',
      redirectUri_prop = ''https://test.com/callback'',
      logout = False,
      closeOnSuccess = True,
      onSuccess_prop = (\<lambda>data. None),
      onError_prop = (\<lambda>message. None),
      onClose_prop = None\<rparr>"

text \<open>The same props with a success callback, or an error callback, that throws.\<close>

definition props_onSuccess_throws :: LinkedInModalProps where
  "props_onSuccess_throws = defaultProps\<lparr>onSuccess_prop := \<lambda>data. Some (Error ''boom'')\<rparr>"

definition props_onError_throws :: LinkedInModalProps where
  "props_onError_throws = defaultProps\<lparr>onError_prop := \<lambda>message. Some (Error ''boom'')\<rparr>"

text \<open>Two more endpoints: a network that is down, and a profile endpoint that answers
  200 with an empty body, so that \<^verbatim>\<open>json()\<close> rejects.\<close>

definition network_down_fetch :: "request \<Rightarrow> thrown + response" where
  "network_down_fetch rq = Inl (Error ''Network request failed'')"

definition empty_body_fetch :: "request \<Rightarrow> thrown + response" where
  "empty_body_fetch rq =
     (if resource rq = ACCESS_TOKEN
      then Inr \<lparr>ok = True, statusText = ''OK'', json = Inr mockTokenResponse\<rparr>
      else Inr \<lparr>ok = True, statusText = ''OK'',
                json = Inl (Error ''Unexpected end of JSON input'')\<rparr>)"

subsection \<open>Two values the code computes, named\<close>

text \<open>Lines 378-387: the message with which the \<^verbatim>\<open>catch\<close> calls \<^verbatim>\<open>onError\<close>.\<close>

definition surfaced_message :: "platform \<Rightarrow> thrown \<Rightarrow> string" where
  "surfaced_message pf error =
     (if includes_str (toLowerCase pf (errorMessage error)) ''network request failed''
      then ''Network error. Please check your internet connection.''
      else errorMessage error)"

text \<open>Lines 497-498: \<^verbatim>\<open>searchParams.get('error_description') || 'Unknown error'\<close>.\<close>

definition error_text :: "(string \<times> string) list \<Rightarrow> string" where
  "error_text params =
     (case searchParams_get params ''error_description'' of
        None \<Rightarrow> ''Unknown error''
      | Some d \<Rightarrow> if d = [] then ''Unknown error'' else d)"

subsection \<open>Two intercepted URLs of the repository's tests\<close>

definition callback_with_code :: string where
  "callback_with_code = ''https://test.com/callback?code=test-auth-code''"

definition callback_denied :: string where
  "callback_denied =
     ''https://test.com/callback?error=access_denied&error_description=User+denied''"

text \<open>
  Two redirects that carry a code and an \<^verbatim>\<open>error_description\<close>; in the second
  the description is \<^verbatim>\<open>networK request failed\<close> with the Kelvin sign, percent-encoded,
  for the K.
\<close>

definition callback_user_denied :: string where
  "callback_user_denied = ''https://test.com/callback?code=abc&error_description=User+denied''"

definition callback_kelvin :: string where
  "callback_kelvin =
     ''https://test.com/callback?code=abc&error_description=networ%E2%84%AA+request+failed''"

section \<open>Properties\<close>

subsection \<open>Strings and small facts\<close>

lemma startsWith_iff: "startsWith s p \<longleftrightarrow> (\<exists>r. s = p @ r)"
  by (induction s p rule: startsWith.induct) auto

lemma includes_str_iff: "includes_str s p \<longleftrightarrow> (\<exists>a b. s = a @ p @ b)"
proof (induction s)
  case Nil
  then show ?case by auto
next
  case (Cons c cs)
  show ?case
  proof
    assume "includes_str (c # cs) p"
    then consider "startsWith (c # cs) p" | "includes_str cs p" by auto
    then show "\<exists>a b. c # cs = a @ p @ b"
    proof cases
      case 1
      then obtain r where "c # cs = p @ r" by (auto simp: startsWith_iff)
      then have "c # cs = [] @ p @ r" by simp
      then show ?thesis by blast
    next
      case 2
      then obtain a b where "cs = a @ p @ b" using Cons.IH by auto
      then have "c # cs = (c # a) @ p @ b" by simp
      then show ?thesis by blast
    qed
  next
    assume "\<exists>a b. c # cs = a @ p @ b"
    then obtain a b where ab: "c # cs = a @ p @ b" by auto
    show "includes_str (c # cs) p"
    proof (cases a)
      case Nil
      with ab have "startsWith (c # cs) p" by (auto simp: startsWith_iff)
      then show ?thesis by simp
    next
      case (Cons x xs)
      with ab have "cs = xs @ p @ b" by simp
      then have "includes_str cs p" using Cons.IH by auto
      then show ?thesis by simp
    qed
  qed
qed

lemma concat_singletons: "concat (map (\<lambda>i. [g i]) xs) = map g xs"
  by (induction xs) auto

lemma toLowerCase_ascii_text:
  assumes "list_all is_ascii s"
  shows "toLowerCase pf s = map toLowerCase_ascii s"
proof -
  have "\<And>i. i \<in> set [0..<length s] \<Longrightarrow> is_ascii (s ! i)"
    using assms by (simp add: list_all_length)
  then have eq: "map (\<lambda>i. if is_ascii (s ! i) then [toLowerCase_ascii (s ! i)]
                       else toLowerCase_other pf s i) [0..<length s]
           = map (\<lambda>i. [toLowerCase_ascii (s ! i)]) [0..<length s]"
    by (intro map_cong) auto
  have "toLowerCase pf s = concat (map (\<lambda>i. [toLowerCase_ascii (s ! i)]) [0..<length s])"
    unfolding toLowerCase_def by (simp only: eq)
  also have "\<dots> = map (\<lambda>i. toLowerCase_ascii (s ! i)) [0..<length s]"
    by (rule concat_singletons)
  also have "\<dots> = map toLowerCase_ascii (map (\<lambda>i. s ! i) [0..<length s])"
    by simp
  also have "\<dots> = map toLowerCase_ascii s"
    by (simp only: map_nth)
  finally show ?thesis .
qed

lemma truthy_string_Some: "truthy_string v = Some d \<longleftrightarrow> v = Some d \<and> d \<noteq> []"
  by (auto simp: truthy_string_def split: option.splits)

lemma truthy_string_None: "truthy_string v = None \<longleftrightarrow> v = None \<or> v = Some []"
  by (auto simp: truthy_string_def split: option.splits)

lemma catch_block_call: "catch_block pf p e = call (onError p) (surfaced_message pf e)"
  by (simp add: catch_block_def surfaced_message_def)

lemma no_code_message_kept:
  "surfaced_message pf (Error ''Authentication failed. No authorization code found.'')
     = ''Authentication failed. No authorization code found.''"
proof -
  have a: "list_all is_ascii ''Authentication failed. No authorization code found.''"
    by code_simp
  have b: "\<not> includes_str
             (map toLowerCase_ascii ''Authentication failed. No authorization code found.'')
             ''network request failed''"
    by code_simp
  from b show ?thesis
    by (simp only: surfaced_message_def errorMessage_def thrown.case
          toLowerCase_ascii_text [OF a] if_False)
qed

lemma isLoading_snoc: "isLoading b (es @ [SetIsLoading v]) = v"
  by (induction b es rule: isLoading.induct) auto

lemma filter_is_result_fetches: "list_all is_fetch fs \<Longrightarrow> filter is_result_callback fs = []"
  by (induction fs) (auto elim: is_fetch.elims)

subsection \<open>The handshake, path by path\<close>

lemma token_exchange_trace:
  "snd (token_exchange pf p c tr) = tr @ [Fetch (token_request p c)]"
  unfolding token_exchange_def io_bind_def do_fetch_def io_of_def io_throw_def io_return_def
  by (auto split: sum.splits option.splits)

lemma fetch_profile_trace:
  "snd (fetch_profile pf t tr) = tr @ [Fetch (profile_request (js_ToString pf t))]"
  unfolding fetch_profile_def io_bind_def do_fetch_def io_of_def io_throw_def io_return_def
  by (auto split: sum.splits option.splits)

lemma handshake_url_throws:
  "URL_searchParams pf (url p) = Inl e \<Longrightarrow>
   handshake pf p tr = (Inl e, tr @ setIsLoading p True)"
  by (simp add: handshake_def io_bind_def dispatch_def io_of_def)

lemma handshake_error_description:
  "URL_searchParams pf (url p) = Inr params \<Longrightarrow>
   truthy_string (searchParams_get params ''error_description'') = Some d \<Longrightarrow>
   handshake pf p tr = (Inl (Error d), tr @ setIsLoading p True)"
  by (simp add: handshake_def io_bind_def dispatch_def io_of_def io_throw_def)

lemma handshake_no_code:
  "URL_searchParams pf (url p) = Inr params \<Longrightarrow>
   truthy_string (searchParams_get params ''error_description'') = None \<Longrightarrow>
   truthy_string (searchParams_get params ''code'') = None \<Longrightarrow>
   handshake pf p tr =
     (Inl (Error ''Authentication failed. No authorization code found.''), tr @ setIsLoading p True)"
  by (simp add: handshake_def io_bind_def dispatch_def io_of_def io_throw_def)

lemma handshake_network:
  "URL_searchParams pf (url p) = Inr params \<Longrightarrow>
   truthy_string (searchParams_get params ''error_description'') = None \<Longrightarrow>
   truthy_string (searchParams_get params ''code'') = Some c \<Longrightarrow>
   handshake pf p tr =
     io_bind (token_exchange pf p c) (fetch_profile pf) (tr @ setIsLoading p True)"
  by (simp add: handshake_def io_bind_def dispatch_def io_of_def io_throw_def)

lemma list_all_is_fetch_network:
  "\<exists>fs. snd (io_bind (token_exchange pf p c) (fetch_profile pf) tr) = tr @ fs \<and> list_all is_fetch fs"
proof (cases "token_exchange pf p c tr")
  case (Pair r tr1)
  then have tr1: "tr1 = tr @ [Fetch (token_request p c)]"
    using token_exchange_trace [of pf p c tr] by simp
  show ?thesis
  proof (cases r)
    case (Inl e)
    with Pair tr1 show ?thesis by (simp add: io_bind_def)
  next
    case (Inr t)
    with Pair tr1 show ?thesis
      using fetch_profile_trace [of pf t tr1] by (simp add: io_bind_def)
  qed
qed

lemma handshake_trace:
  "\<exists>fs. snd (handshake pf p tr) = tr @ setIsLoading p True @ fs \<and> list_all is_fetch fs"
proof (cases "URL_searchParams pf (url p)")
  case (Inl e)
  then show ?thesis by (simp add: handshake_url_throws)
next
  case (Inr params)
  show ?thesis
  proof (cases "truthy_string (searchParams_get params ''error_description'')")
    case (Some d)
    with Inr show ?thesis by (simp add: handshake_error_description)
  next
    case None
    show ?thesis
    proof (cases "truthy_string (searchParams_get params ''code'')")
      case nc: None
      with Inr None show ?thesis by (simp add: handshake_no_code)
    next
      case (Some c)
      with Inr None show ?thesis
        using list_all_is_fetch_network [of pf p c "tr @ setIsLoading p True"]
        by (auto simp: handshake_network)
    qed
  qed
qed

lemma handleAuthCallback_failure:
  "handshake pf p tr = (Inl e, tr1) \<Longrightarrow>
   handleAuthCallback pf p tr =
     ((case snd (onError p (surfaced_message pf e)) of None \<Rightarrow> Inr () | Some e' \<Rightarrow> Inl e'),
      tr1 @ fst (onError p (surfaced_message pf e)) @ setIsLoading p False)"
  by (simp add: handleAuthCallback_def try_catch_finally_def try_block_def io_bind_def
      catch_block_call call_def dispatch_def)

lemma handleAuthCallback_success:
  "handshake pf p tr = (Inr d, tr1) \<Longrightarrow> snd (onSuccess p d) = None \<Longrightarrow>
   handleAuthCallback pf p tr = (Inr (), tr1 @ fst (onSuccess p d) @ setIsLoading p False)"
  by (simp add: handleAuthCallback_def try_catch_finally_def try_block_def io_bind_def
      catch_block_call call_def dispatch_def)

lemma handleAuthCallback_success_throws:
  "handshake pf p tr = (Inr d, tr1) \<Longrightarrow> snd (onSuccess p d) = Some e \<Longrightarrow>
   handleAuthCallback pf p tr =
     ((case snd (onError p (surfaced_message pf e)) of None \<Rightarrow> Inr () | Some e' \<Rightarrow> Inl e'),
      tr1 @ fst (onSuccess p d) @ fst (onError p (surfaced_message pf e)) @ setIsLoading p False)"
  by (simp add: handleAuthCallback_def try_catch_finally_def try_block_def io_bind_def
      catch_block_call call_def dispatch_def)

lemma handleAuthCallback_trace:
  "\<exists>mid. snd (handleAuthCallback pf p tr) = tr @ setIsLoading p True @ mid @ setIsLoading p False"
proof -
  obtain fs where fs: "snd (handshake pf p tr) = tr @ setIsLoading p True @ fs"
    using handshake_trace by blast
  obtain r tr1 where h: "handshake pf p tr = (r, tr1)" by (cases "handshake pf p tr")
  with fs have tr1: "tr1 = tr @ setIsLoading p True @ fs" by simp
  show ?thesis
  proof (cases r)
    case (Inl e)
    with h tr1 show ?thesis by (simp add: handleAuthCallback_failure)
  next
    case (Inr d)
    show ?thesis
    proof (cases "snd (onSuccess p d)")
      case None
      with h Inr tr1 show ?thesis by (simp add: handleAuthCallback_success)
    next
      case (Some e)
      with h Inr tr1 show ?thesis by (simp add: handleAuthCallback_success_throws)
    qed
  qed
qed

subsection \<open>The intercept, branch by branch\<close>

lemma classify_success_iff:
  "classify redirect u = RedirectSuccess \<longleftrightarrow> startsWith u redirect \<and> includes_str u ''code=''"
  by (simp add: classify_def)

lemma classify_error_iff:
  "classify redirect u = RedirectError \<longleftrightarrow>
     \<not> (startsWith u redirect \<and> includes_str u ''code='') \<and> includes_str u ''error=''"
  by (simp add: classify_def)

lemma handler_success:
  "\<not> logout pr \<Longrightarrow> classify (redirectUri_prop pr) u = RedirectSuccess \<Longrightarrow>
   handleNavigationStateChange pf pr u tr = (Inr False, snd (handleAuthCallback pf (auth_params pr u) tr))"
  by (simp add: handleNavigationStateChange_def classify_success_iff)

lemma handler_error_throws:
  "\<not> logout pr \<Longrightarrow> classify (redirectUri_prop pr) u = RedirectError \<Longrightarrow>
   URL_searchParams pf u = Inl e \<Longrightarrow>
   handleNavigationStateChange pf pr u tr = (Inl e, tr)"
  by (auto simp add: handleNavigationStateChange_def classify_error_iff io_bind_def io_of_def)

lemma handler_error:
  "\<not> logout pr \<Longrightarrow> classify (redirectUri_prop pr) u = RedirectError \<Longrightarrow>
   URL_searchParams pf u = Inr params \<Longrightarrow>
   handleNavigationStateChange pf pr u tr =
     (case onError_prop pr (error_text params) of
        Some e \<Rightarrow> (Inl e, tr @ [OnError (error_text params)])
      | None \<Rightarrow>
         (case onClose_prop pr of
            Some e \<Rightarrow> (Inl e, tr @ [OnError (error_text params), OnClose])
          | None \<Rightarrow> (Inr False, tr @ [OnError (error_text params), OnClose])))"
  by (auto simp add: handleNavigationStateChange_def classify_error_iff io_bind_def io_of_def
      call_def host_onError_def host_onClose_def io_return_def error_text_def truthy_string_def
      split: option.splits)

lemma handler_pass_through:
  "\<not> logout pr \<Longrightarrow> classify (redirectUri_prop pr) u = PassThrough \<Longrightarrow>
   handleNavigationStateChange pf pr u tr = (Inr True, tr)"
  by (auto simp add: handleNavigationStateChange_def classify_def split: if_splits)

lemma auth_trace_starts:
  "\<exists>rest. snd (handleAuthCallback pf (auth_params pr u) tr) = tr @ SetIsLoading True # rest"
  using handleAuthCallback_trace [of pf "auth_params pr u" tr]
  by (auto simp: auth_params_def useState_setIsLoading_def)

lemma auth_handshake_trace:
  "handshake pf (auth_params pr u) tr = (r, tr1) \<Longrightarrow>
   \<exists>fs. list_all is_fetch fs \<and> tr1 = tr @ SetIsLoading True # fs"
  using handshake_trace [of pf "auth_params pr u" tr]
  by (auto simp: auth_params_def useState_setIsLoading_def)

lemma auth_failure:
  "handshake pf (auth_params pr u) tr = (Inl e, tr1) \<Longrightarrow>
   snd (handleAuthCallback pf (auth_params pr u) tr)
     = tr1 @ [OnError (surfaced_message pf e), SetIsLoading False]"
  by (simp add: handleAuthCallback_failure)
     (simp add: auth_params_def host_onError_def useState_setIsLoading_def)

lemma auth_success:
  "handshake pf (auth_params pr u) tr = (Inr d, tr1) \<Longrightarrow> closeOnSuccess pr \<Longrightarrow>
   onSuccess_prop pr d = None \<Longrightarrow>
   snd (handleAuthCallback pf (auth_params pr u) tr)
     = tr1 @ [OnSuccess d, OnClose]
         @ (case onClose_prop pr of None \<Rightarrow> [] | Some e \<Rightarrow> [OnError (surfaced_message pf e)])
         @ [SetIsLoading False]"
proof (cases "onClose_prop pr")
  case None
  assume "handshake pf (auth_params pr u) tr = (Inr d, tr1)" "closeOnSuccess pr"
    "onSuccess_prop pr d = None"
  moreover from this None have "snd (onSuccess (auth_params pr u) d) = None"
    by (simp add: auth_params_def success_continuation_def)
  ultimately show ?thesis using None
    by (simp add: handleAuthCallback_success)
       (simp add: auth_params_def success_continuation_def useState_setIsLoading_def)
next
  case (Some e)
  assume "handshake pf (auth_params pr u) tr = (Inr d, tr1)" "closeOnSuccess pr"
    "onSuccess_prop pr d = None"
  moreover from this Some have "snd (onSuccess (auth_params pr u) d) = Some e"
    by (simp add: auth_params_def success_continuation_def)
  ultimately show ?thesis using Some
    by (simp add: handleAuthCallback_success_throws)
       (simp add: auth_params_def success_continuation_def useState_setIsLoading_def
          host_onError_def)
qed

lemma auth_success_throws:
  "handshake pf (auth_params pr u) tr = (Inr d, tr1) \<Longrightarrow> onSuccess_prop pr d = Some e \<Longrightarrow>
   snd (handleAuthCallback pf (auth_params pr u) tr)
     = tr1 @ [OnSuccess d, OnError (surfaced_message pf e), SetIsLoading False]"
proof -
  assume h: "handshake pf (auth_params pr u) tr = (Inr d, tr1)" and t: "onSuccess_prop pr d = Some e"
  from t have "onSuccess (auth_params pr u) d = ([OnSuccess d], Some e)"
    by (simp add: auth_params_def success_continuation_def)
  with h show ?thesis
    by (simp add: handleAuthCallback_success_throws)
       (simp add: auth_params_def useState_setIsLoading_def host_onError_def)
qed

lemma fetch_profile_json_rejects:
  "fetch pf (profile_request (js_ToString pf t)) = Inr r \<Longrightarrow> ok r \<Longrightarrow> json r = Inl e \<Longrightarrow>
   fetch_profile pf t tr = (Inl e, tr @ [Fetch (profile_request (js_ToString pf t))])"
  by (simp add: fetch_profile_def io_bind_def do_fetch_def io_of_def)

lemma fetch_profile_falsy:
  "fetch pf (profile_request (js_ToString pf t)) = Inr r \<Longrightarrow> ok r \<Longrightarrow> json r = Inr v \<Longrightarrow>
   truthy (Some v) = None \<Longrightarrow>
   fetch_profile pf t tr =
     (Inl (Error ''Failed to parse profile data.''),
      tr @ [Fetch (profile_request (js_ToString pf t))])"
  by (simp add: fetch_profile_def io_bind_def do_fetch_def io_of_def io_throw_def)

subsection \<open>The repository's tests, replayed\<close>

text \<open>
  The two tests of the intercept in the repository's test file: on the redirect with
  a code the intercept returns false, \<^verbatim>\<open>fetch\<close> is called twice (token endpoint
  with \<^verbatim>\<open>code=test-auth-code\<close> in the body, then the profile endpoint with the
  bearer token), the success callback receives the profile and the close callback is
  called; on the redirect with \<^verbatim>\<open>error=access_denied\<close> it returns false and the
  error and close callbacks are called.
\<close>

lemma test_successful_authentication_flow:
  "handleNavigationStateChange sample_platform defaultProps callback_with_code []
     = (Inr False,
        [SetIsLoading True,
         Fetch \<lparr>resource = ''https://www.linkedin.com/oauth/v2/accessToken'',
                method_str = ''POST'',
                headers = [(''Content-Type'', ''application/x-www-form-urlencoded'')],
                body = Some (''grant_type=authorization_code&code=test-auth-code''
                  @ ''&client_id=test-client-id&client_secret=test-client-secret''
                  @ ''&redirect_uri=https%3A%2F%2Ftest.com%2Fcallback'')\<rparr>,
         Fetch \<lparr>resource = ''https://api.linkedin.com/v2/userinfo'',
                method_str = ''GET'',
                headers = [(''Authorization'', ''Bearer test-access-token'')],
                body = None\<rparr>,
         OnSuccess mockProfileResponse,
         OnClose,
         SetIsLoading False])"
  by code_simp

lemma test_authentication_error_from_url:
  "handleNavigationStateChange sample_platform defaultProps callback_denied []
     = (Inr False, [OnError ''User denied'', OnClose])"
  by code_simp

section \<open>The claims\<close>

text \<open>
  Claim C1, as the code has it. Outside logout mode the intercept blocks the navigation
  and starts the handshake exactly when the URL starts with \<^verbatim>\<open>redirectUri\<close> and
  contains the substring \<^verbatim>\<open>code=\<close> anywhere. The check is on the text of the URL:
  it does not look for a query parameter named \<^verbatim>\<open>code\<close>.
\<close>

theorem redirect_success_iff_code_substring:
  assumes "\<not> logout pr"
  shows "(classify (redirectUri_prop pr) u = RedirectSuccess \<longleftrightarrow>
            (\<exists>rest. u = redirectUri_prop pr @ rest) \<and> (\<exists>a b. u = a @ ''code='' @ b))
       \<and> (classify (redirectUri_prop pr) u = RedirectSuccess \<longleftrightarrow>
            fst (handleNavigationStateChange pf pr u tr) = Inr False
            \<and> (\<exists>rest. snd (handleNavigationStateChange pf pr u tr) = tr @ SetIsLoading True # rest))"
proof (intro conjI)
  show "classify (redirectUri_prop pr) u = RedirectSuccess \<longleftrightarrow>
            (\<exists>rest. u = redirectUri_prop pr @ rest) \<and> (\<exists>a b. u = a @ ''code='' @ b)"
    by (simp add: classify_success_iff startsWith_iff includes_str_iff)
next
  show "classify (redirectUri_prop pr) u = RedirectSuccess \<longleftrightarrow>
            fst (handleNavigationStateChange pf pr u tr) = Inr False
            \<and> (\<exists>rest. snd (handleNavigationStateChange pf pr u tr) = tr @ SetIsLoading True # rest)"
  proof (cases "classify (redirectUri_prop pr) u")
    case RedirectSuccess
    with assms show ?thesis
      using auth_trace_starts [of pf pr u tr] by (simp add: handler_success)
  next
    case RedirectError
    show ?thesis
    proof (cases "URL_searchParams pf u")
      case (Inl e)
      with assms RedirectError show ?thesis by (simp add: handler_error_throws)
    next
      case (Inr params)
      with assms RedirectError show ?thesis
        by (auto simp add: handler_error split: option.splits)
    qed
  next
    case PassThrough
    with assms show ?thesis by (simp add: handler_pass_through)
  qed
qed

text \<open>The redirect of the repository's test, \<^verbatim>\<open>?code=test-auth-code\<close>.\<close>

theorem redirect_success_iff_code_substring_witness:
  "\<not> logout defaultProps
   \<and> classify (redirectUri_prop defaultProps) callback_with_code = RedirectSuccess
   \<and> (\<exists>rest. callback_with_code = redirectUri_prop defaultProps @ rest)
   \<and> (\<exists>a b. callback_with_code = a @ ''code='' @ b)
   \<and> fst (handleNavigationStateChange sample_platform defaultProps callback_with_code []) = Inr False
   \<and> (\<exists>rest. snd (handleNavigationStateChange sample_platform defaultProps callback_with_code [])
         = [] @ SetIsLoading True # rest)"
proof -
  have h: "\<not> logout defaultProps" by code_simp
  have c: "classify (redirectUri_prop defaultProps) callback_with_code = RedirectSuccess"
    by code_simp
  from redirect_success_iff_code_substring [OF h, of callback_with_code sample_platform "[]"] c h
  show ?thesis by blast
qed

text \<open>
  Against C1 as stated: \<^verbatim>\<open>https://test.com/callback?xcode=1\<close> has the one query
  parameter \<^verbatim>\<open>xcode\<close> and no parameter \<^verbatim>\<open>code\<close>, yet it is classified
  RedirectSuccess: the navigation is blocked and the handshake runs (and fails for want of
  a code).
\<close>

theorem redirect_success_without_code_parameter:
  "classify (redirectUri_prop defaultProps) ''https://test.com/callback?xcode=1'' = RedirectSuccess
   \<and> handleNavigationStateChange sample_platform defaultProps ''https://test.com/callback?xcode=1'' []
       = (Inr False,
          [SetIsLoading True,
           OnError ''Authentication failed. No authorization code found.'',
           SetIsLoading False])
   \<and> whatwg_searchParams ''https://test.com/callback?xcode=1'' = Inr [(''xcode'', ''1'')]
   \<and> searchParams_get [(''xcode'', ''1'')] ''code'' = None"
  by code_simp

text \<open>
  Claim C2, as the code has it. Let the \<^verbatim>\<open>URL\<close> constructor accept the callback URL.
  If \<^verbatim>\<open>error_description\<close> is present and not empty, the handshake fails at once:
  the error callback receives that text, or the fixed network-error message when the text,
  lower-cased by the runtime's \<^verbatim>\<open>toLowerCase\<close>, contains
  \<^verbatim>\<open>network request failed\<close>. If
  \<^verbatim>\<open>error_description\<close> is absent or empty and \<^verbatim>\<open>code\<close> is absent or
  empty, the error callback receives the fixed no-code message. In both cases the trace
  is the setter with true, the error callback, the setter with false: no
  \<^verbatim>\<open>fetch\<close>.
\<close>

theorem callback_url_failures:
  assumes "URL_searchParams pf (url p) = Inr params"
  shows "(searchParams_get params ''error_description'' = Some d \<and> d \<noteq> [] \<longrightarrow>
            snd (handleAuthCallback pf p tr)
              = tr @ setIsLoading p True
                  @ fst (onError p
                      (if includes_str (toLowerCase pf d) ''network request failed''
                       then ''Network error. Please check your internet connection.''
                       else d))
                  @ setIsLoading p False)
       \<and> ((searchParams_get params ''error_description'' = None
            \<or> searchParams_get params ''error_description'' = Some [])
          \<and> (searchParams_get params ''code'' = None \<or> searchParams_get params ''code'' = Some [])
          \<longrightarrow> snd (handleAuthCallback pf p tr)
              = tr @ setIsLoading p True
                  @ fst (onError p ''Authentication failed. No authorization code found.'')
                  @ setIsLoading p False)"
proof (intro conjI impI)
  assume "searchParams_get params ''error_description'' = Some d \<and> d \<noteq> []"
  then have "truthy_string (searchParams_get params ''error_description'') = Some d"
    by (simp add: truthy_string_Some)
  with assms have "handshake pf p tr = (Inl (Error d), tr @ setIsLoading p True)"
    by (rule handshake_error_description)
  then show "snd (handleAuthCallback pf p tr)
              = tr @ setIsLoading p True
                  @ fst (onError p
                      (if includes_str (toLowerCase pf d) ''network request failed''
                       then ''Network error. Please check your internet connection.''
                       else d))
                  @ setIsLoading p False"
    by (simp add: handleAuthCallback_failure surfaced_message_def errorMessage_def)
next
  assume a: "(searchParams_get params ''error_description'' = None
            \<or> searchParams_get params ''error_description'' = Some [])
          \<and> (searchParams_get params ''code'' = None \<or> searchParams_get params ''code'' = Some [])"
  then have "truthy_string (searchParams_get params ''error_description'') = None"
    and "truthy_string (searchParams_get params ''code'') = None"
    by (simp_all add: truthy_string_None)
  with assms have "handshake pf p tr =
     (Inl (Error ''Authentication failed. No authorization code found.''), tr @ setIsLoading p True)"
    by (rule handshake_no_code)
  then show "snd (handleAuthCallback pf p tr)
              = tr @ setIsLoading p True
                  @ fst (onError p ''Authentication failed. No authorization code found.'')
                  @ setIsLoading p False"
    by (simp add: handleAuthCallback_failure no_code_message_kept)
qed

theorem callback_url_failures_witness:
  "URL_searchParams sample_platform
       (url (auth_params defaultProps ''https://test.com/callback?code=abc&error_description=User+denied''))
     = Inr [(''code'', ''abc''), (''error_description'', ''User denied'')]
   \<and> snd (handleAuthCallback sample_platform
        (auth_params defaultProps ''https://test.com/callback?code=abc&error_description=User+denied'') [])
     = [SetIsLoading True, OnError ''User denied'', SetIsLoading False]
   \<and> URL_searchParams sample_platform
       (url (auth_params defaultProps ''https://test.com/callback?xcode=1''))
     = Inr [(''xcode'', ''1'')]
   \<and> snd (handleAuthCallback sample_platform
        (auth_params defaultProps ''https://test.com/callback?xcode=1'') [])
     = [SetIsLoading True, OnError ''Authentication failed. No authorization code found.'',
        SetIsLoading False]
   \<and> URL_searchParams sample_platform (url (auth_params defaultProps callback_kelvin))
     = Inr [(''code'', ''abc''),
            (''error_description'', ''networ'' @ kelvin_sign @ '' request failed'')]
   \<and> snd (handleAuthCallback sample_platform (auth_params defaultProps callback_kelvin) [])
     = [SetIsLoading True,
        OnError ''Network error. Please check your internet connection.'',
        SetIsLoading False]"
proof -
  let ?k = "auth_params defaultProps callback_kelvin"
  let ?km = "''networ'' @ kelvin_sign @ '' request failed''"
  let ?p = "auth_params defaultProps ''https://test.com/callback?code=abc&error_description=User+denied''"
  let ?q = "auth_params defaultProps ''https://test.com/callback?xcode=1''"
  have h1: "URL_searchParams sample_platform (url ?p)
     = Inr [(''code'', ''abc''), (''error_description'', ''User denied'')]"
    by code_simp
  have g1: "searchParams_get [(''code'', ''abc''), (''error_description'', ''User denied'')]
        ''error_description'' = Some ''User denied'' \<and> ''User denied'' \<noteq> []"
    by code_simp
  have e1: "[] @ setIsLoading ?p True
       @ fst (onError ?p
           (if includes_str (toLowerCase sample_platform ''User denied'') ''network request failed''
            then ''Network error. Please check your internet connection.''
            else ''User denied''))
       @ setIsLoading ?p False
     = [SetIsLoading True, OnError ''User denied'', SetIsLoading False]"
    by code_simp
  have h2: "URL_searchParams sample_platform (url ?q) = Inr [(''xcode'', ''1'')]"
    by code_simp
  have g2: "(searchParams_get [(''xcode'', ''1'')] ''error_description'' = None
            \<or> searchParams_get [(''xcode'', ''1'')] ''error_description'' = Some [])
          \<and> (searchParams_get [(''xcode'', ''1'')] ''code'' = None
            \<or> searchParams_get [(''xcode'', ''1'')] ''code'' = Some [])"
    by code_simp
  have e2: "[] @ setIsLoading ?q True
       @ fst (onError ?q ''Authentication failed. No authorization code found.'')
       @ setIsLoading ?q False
     = [SetIsLoading True, OnError ''Authentication failed. No authorization code found.'',
        SetIsLoading False]"
    by code_simp
  have r1: "snd (handleAuthCallback sample_platform ?p [])
     = [SetIsLoading True, OnError ''User denied'', SetIsLoading False]"
    using callback_url_failures [OF h1, of "''User denied''" "[]", THEN conjunct1, THEN mp, OF g1] e1
    by (rule trans)
  have r2: "snd (handleAuthCallback sample_platform ?q [])
     = [SetIsLoading True, OnError ''Authentication failed. No authorization code found.'',
        SetIsLoading False]"
    using callback_url_failures [OF h2, of "''User denied''" "[]", THEN conjunct2, THEN mp, OF g2] e2
    by (rule trans)
  have h3: "URL_searchParams sample_platform (url ?k)
     = Inr [(''code'', ''abc''), (''error_description'', ?km)]"
    by code_simp
  have g3: "searchParams_get [(''code'', ''abc''), (''error_description'', ?km)]
        ''error_description'' = Some ?km \<and> ?km \<noteq> []"
    by code_simp
  have e3: "[] @ setIsLoading ?k True
       @ fst (onError ?k
           (if includes_str (toLowerCase sample_platform ?km) ''network request failed''
            then ''Network error. Please check your internet connection.''
            else ?km))
       @ setIsLoading ?k False
     = [SetIsLoading True,
        OnError ''Network error. Please check your internet connection.'',
        SetIsLoading False]"
    by code_simp
  have r3: "snd (handleAuthCallback sample_platform ?k [])
     = [SetIsLoading True,
        OnError ''Network error. Please check your internet connection.'',
        SetIsLoading False]"
    using callback_url_failures [OF h3, of ?km "[]", THEN conjunct1, THEN mp, OF g3] e3
    by (rule trans)
  from h1 r1 h2 r2 h3 r3 show ?thesis by (intro conjI)
qed

text \<open>
  Against C2 as stated. With \<^verbatim>\<open>error_description=\<close> present but empty and a code,
  the handshake does not fail: both endpoints are contacted and the success callback is
  called. With \<^verbatim>\<open>error_description=Network+request+failed\<close> the error callback does
  not receive that message but the fixed network-error message.
\<close>

theorem error_description_counterexample:
  "whatwg_searchParams ''https://test.com/callback?code=abc&error_description=''
     = Inr [(''code'', ''abc''), (''error_description'', [])]
   \<and> handleAuthCallback sample_platform
        (auth_params defaultProps ''https://test.com/callback?code=abc&error_description='') []
     = (Inr (),
        [SetIsLoading True,
         Fetch (token_request
                  (auth_params defaultProps ''https://test.com/callback?code=abc&error_description='')
                  ''abc''),
         Fetch (profile_request ''test-access-token''),
         OnSuccess mockProfileResponse, OnClose, SetIsLoading False])
   \<and> whatwg_searchParams ''https://test.com/callback?code=abc&error_description=Network+request+failed''
     = Inr [(''code'', ''abc''), (''error_description'', ''Network request failed'')]
   \<and> handleAuthCallback sample_platform
        (auth_params defaultProps
           ''https://test.com/callback?code=abc&error_description=Network+request+failed'') []
     = (Inr (),
        [SetIsLoading True,
         OnError ''Network error. Please check your internet connection.'',
         SetIsLoading False])"
  by code_simp

text \<open>
  Claim C3. On every input and every outcome, the first thing \<^verbatim>\<open>handleAuthCallback\<close>
  does is to call the setter with true and the last thing is to call it with false; with
  the setter of \<^verbatim>\<open>useState\<close>, the flag \<^verbatim>\<open>isLoading\<close> is false when the
  function is done, whatever it was before.
\<close>

theorem loading_flag_set_and_cleared:
  "(\<exists>mid. snd (handleAuthCallback pf p tr) = tr @ setIsLoading p True @ mid @ setIsLoading p False)
   \<and> (\<exists>mid. snd (handleAuthCallback pf (p\<lparr>setIsLoading := useState_setIsLoading\<rparr>) tr)
          = tr @ [SetIsLoading True] @ mid @ [SetIsLoading False])
   \<and> isLoading b (snd (handleAuthCallback pf (p\<lparr>setIsLoading := useState_setIsLoading\<rparr>) tr)) = False"
proof -
  obtain mid where mid: "snd (handleAuthCallback pf (p\<lparr>setIsLoading := useState_setIsLoading\<rparr>) tr)
     = tr @ [SetIsLoading True] @ mid @ [SetIsLoading False]"
    using handleAuthCallback_trace [of pf "p\<lparr>setIsLoading := useState_setIsLoading\<rparr>" tr]
    by (auto simp: useState_setIsLoading_def)
  then have "isLoading b (snd (handleAuthCallback pf (p\<lparr>setIsLoading := useState_setIsLoading\<rparr>) tr)) = False"
    using isLoading_snoc [of b "tr @ [SetIsLoading True] @ mid" False] by simp
  with mid handleAuthCallback_trace [of pf p tr] show ?thesis by blast
qed

text \<open>
  Claim C4. Whenever the \<^verbatim>\<open>try\<close> block throws, with message \<open>errorMessage e\<close>:
  if the lower-cased message contains \<^verbatim>\<open>network request failed\<close>, the error
  callback receives the fixed network-error message; otherwise it receives the message
  unchanged. The lower-casing is the runtime's \<^verbatim>\<open>toLowerCase\<close>. (A thrown value
  that is not an \<^verbatim>\<open>Error\<close> has the message \<^verbatim>\<open>An unknown error occurred\<close>.)
\<close>

theorem surfaced_error_message:
  assumes "try_block pf p tr = (Inl e, tr1)"
  shows "(includes_str (toLowerCase pf (errorMessage e)) ''network request failed''
            \<longrightarrow> snd (handleAuthCallback pf p tr)
                  = tr1 @ fst (onError p ''Network error. Please check your internet connection.'')
                      @ setIsLoading p False)
       \<and> (\<not> includes_str (toLowerCase pf (errorMessage e)) ''network request failed''
            \<longrightarrow> snd (handleAuthCallback pf p tr)
                  = tr1 @ fst (onError p (errorMessage e)) @ setIsLoading p False)"
  using assms
  by (simp add: handleAuthCallback_def try_catch_finally_def catch_block_def call_def dispatch_def)

text \<open>
  Three messages: the one of a rejected \<^verbatim>\<open>fetch\<close>, one that has nothing of the
  text, and one that has the text only after Unicode lower-casing, with the Kelvin sign
  for the letter k.
\<close>

theorem surfaced_error_message_witness:
  "try_block (sample_platform\<lparr>fetch := network_down_fetch\<rparr>)
       (auth_params defaultProps callback_with_code) []
     = (Inl (Error ''Network request failed''),
        [SetIsLoading True,
         Fetch (token_request (auth_params defaultProps callback_with_code) ''test-auth-code'')])
   \<and> includes_str
        (toLowerCase (sample_platform\<lparr>fetch := network_down_fetch\<rparr>)
           (errorMessage (Error ''Network request failed'')))
        ''network request failed''
   \<and> snd (handleAuthCallback (sample_platform\<lparr>fetch := network_down_fetch\<rparr>)
          (auth_params defaultProps callback_with_code) [])
     = [SetIsLoading True,
        Fetch (token_request (auth_params defaultProps callback_with_code) ''test-auth-code''),
        OnError ''Network error. Please check your internet connection.'',
        SetIsLoading False]
   \<and> try_block sample_platform (auth_params defaultProps callback_user_denied) []
     = (Inl (Error ''User denied''), [SetIsLoading True])
   \<and> \<not> includes_str (toLowerCase sample_platform (errorMessage (Error ''User denied'')))
          ''network request failed''
   \<and> snd (handleAuthCallback sample_platform (auth_params defaultProps callback_user_denied) [])
     = [SetIsLoading True, OnError ''User denied'', SetIsLoading False]
   \<and> try_block sample_platform (auth_params defaultProps callback_kelvin) []
     = (Inl (Error (''networ'' @ kelvin_sign @ '' request failed'')), [SetIsLoading True])
   \<and> includes_str
        (toLowerCase sample_platform
           (errorMessage (Error (''networ'' @ kelvin_sign @ '' request failed''))))
        ''network request failed''
   \<and> snd (handleAuthCallback sample_platform (auth_params defaultProps callback_kelvin) [])
     = [SetIsLoading True,
        OnError ''Network error. Please check your internet connection.'',
        SetIsLoading False]"
proof -
  let ?pf = "sample_platform\<lparr>fetch := network_down_fetch\<rparr>"
  let ?p = "auth_params defaultProps callback_with_code"
  let ?q = "auth_params defaultProps callback_user_denied"
  let ?k = "auth_params defaultProps callback_kelvin"
  let ?tr1 = "[SetIsLoading True,
               Fetch (token_request (auth_params defaultProps callback_with_code) ''test-auth-code'')]"
  let ?km = "''networ'' @ kelvin_sign @ '' request failed''"
  have h: "try_block ?pf ?p [] = (Inl (Error ''Network request failed''), ?tr1)"
    by code_simp
  have g: "includes_str (toLowerCase ?pf (errorMessage (Error ''Network request failed'')))
             ''network request failed''"
    by code_simp
  have e: "?tr1 @ fst (onError ?p ''Network error. Please check your internet connection.'')
             @ setIsLoading ?p False
     = [SetIsLoading True,
        Fetch (token_request (auth_params defaultProps callback_with_code) ''test-auth-code''),
        OnError ''Network error. Please check your internet connection.'',
        SetIsLoading False]"
    by code_simp
  have r: "snd (handleAuthCallback ?pf ?p [])
     = [SetIsLoading True,
        Fetch (token_request (auth_params defaultProps callback_with_code) ''test-auth-code''),
        OnError ''Network error. Please check your internet connection.'',
        SetIsLoading False]"
    using surfaced_error_message [OF h, THEN conjunct1, THEN mp, OF g] e by (rule trans)
  have h': "try_block sample_platform ?q [] = (Inl (Error ''User denied''), [SetIsLoading True])"
    by code_simp
  have g': "\<not> includes_str (toLowerCase sample_platform (errorMessage (Error ''User denied'')))
            ''network request failed''"
    by code_simp
  have e': "[SetIsLoading True] @ fst (onError ?q (errorMessage (Error ''User denied'')))
             @ setIsLoading ?q False
     = [SetIsLoading True, OnError ''User denied'', SetIsLoading False]"
    by code_simp
  have r': "snd (handleAuthCallback sample_platform ?q [])
     = [SetIsLoading True, OnError ''User denied'', SetIsLoading False]"
    using surfaced_error_message [OF h', THEN conjunct2, THEN mp, OF g'] e' by (rule trans)
  have h'': "try_block sample_platform ?k [] = (Inl (Error ?km), [SetIsLoading True])"
    by code_simp
  have g'': "includes_str (toLowerCase sample_platform (errorMessage (Error ?km)))
             ''network request failed''"
    by code_simp
  have e'': "[SetIsLoading True]
             @ fst (onError ?k ''Network error. Please check your internet connection.'')
             @ setIsLoading ?k False
     = [SetIsLoading True,
        OnError ''Network error. Please check your internet connection.'',
        SetIsLoading False]"
    by code_simp
  have r'': "snd (handleAuthCallback sample_platform ?k [])
     = [SetIsLoading True,
        OnError ''Network error. Please check your internet connection.'',
        SetIsLoading False]"
    using surfaced_error_message [OF h'', THEN conjunct1, THEN mp, OF g''] e'' by (rule trans)
  from h g r h' g' r' h'' g'' r'' show ?thesis by (intro conjI)
qed

text \<open>
  Claim C5, as the code has it. Outside logout mode, let the URL contain the substring
  \<^verbatim>\<open>error=\<close>, not pass the success check, and be accepted by the
  \<^verbatim>\<open>URL\<close> constructor, and let the host's error and close callbacks return. Then
  the navigation is blocked, the error callback is called with
  \<^verbatim>\<open>error_description\<close> when it is present and not empty and with
  \<^verbatim>\<open>Unknown error\<close> otherwise, the close callback is called next, and nothing else
  happens: no \<^verbatim>\<open>fetch\<close>.
\<close>

theorem redirect_error_reported_then_closed:
  assumes "\<not> logout pr"
    and "classify (redirectUri_prop pr) u = RedirectError"
    and "URL_searchParams pf u = Inr params"
    and "onError_prop pr
           (case searchParams_get params ''error_description'' of
              None \<Rightarrow> ''Unknown error''
            | Some d \<Rightarrow> if d = [] then ''Unknown error'' else d) = None"
    and "onClose_prop pr = None"
  shows "handleNavigationStateChange pf pr u tr =
     (Inr False,
      tr @ [OnError (case searchParams_get params ''error_description'' of
                       None \<Rightarrow> ''Unknown error''
                     | Some d \<Rightarrow> if d = [] then ''Unknown error'' else d),
            OnClose])"
  using assms handler_error [of pr u pf params tr] by (simp add: error_text_def)

theorem redirect_error_reported_then_closed_witness:
  "\<not> logout defaultProps
   \<and> classify (redirectUri_prop defaultProps) callback_denied = RedirectError
   \<and> URL_searchParams sample_platform callback_denied
       = Inr [(''error'', ''access_denied''), (''error_description'', ''User denied'')]
   \<and> handleNavigationStateChange sample_platform defaultProps callback_denied []
       = (Inr False, [OnError ''User denied'', OnClose])"
proof -
  let ?params = "[(''error'', ''access_denied''), (''error_description'', ''User denied'')]"
  have h1: "\<not> logout defaultProps" by code_simp
  have h2: "classify (redirectUri_prop defaultProps) callback_denied = RedirectError"
    by code_simp
  have h3: "URL_searchParams sample_platform callback_denied = Inr ?params"
    by code_simp
  have h4: "onError_prop defaultProps
           (case searchParams_get ?params ''error_description'' of
              None \<Rightarrow> ''Unknown error''
            | Some d \<Rightarrow> if d = [] then ''Unknown error'' else d) = None"
    by code_simp
  have h5: "onClose_prop defaultProps = None" by code_simp
  have e: "(Inr False,
      [] @ [OnError (case searchParams_get ?params ''error_description'' of
                       None \<Rightarrow> ''Unknown error''
                     | Some d \<Rightarrow> if d = [] then ''Unknown error'' else d),
            OnClose]) = (Inr False :: thrown + bool, [OnError ''User denied'', OnClose])"
    by code_simp
  from redirect_error_reported_then_closed [OF h1 h2 h3 h4 h5, of "[]"] e
  have "handleNavigationStateChange sample_platform defaultProps callback_denied []
       = (Inr False, [OnError ''User denied'', OnClose])"
    by (rule trans)
  with h1 h2 h3 show ?thesis by (simp only: simp_thms)
qed

text \<open>
  Against C5 as stated. The URL \<^verbatim>\<open>error=1\<close> is classified RedirectError, the
  constructor rejects it, and the intercept throws: nothing is blocked and no callback is
  called. With \<^verbatim>\<open>error_description=\<close> present but empty the error callback receives
  \<^verbatim>\<open>Unknown error\<close>, not the (empty) value. When the error callback throws, the
  close callback is not called and the intercept throws.
\<close>

theorem redirect_error_counterexample:
  "classify (redirectUri_prop defaultProps) ''error=1'' = RedirectError
   \<and> handleNavigationStateChange sample_platform defaultProps ''error=1'' []
       = (Inl (Error ''Invalid URL''), [])
   \<and> classify (redirectUri_prop defaultProps)
        ''https://test.com/callback?error=access_denied&error_description='' = RedirectError
   \<and> whatwg_searchParams ''https://test.com/callback?error=access_denied&error_description=''
       = Inr [(''error'', ''access_denied''), (''error_description'', [])]
   \<and> handleNavigationStateChange sample_platform defaultProps
        ''https://test.com/callback?error=access_denied&error_description='' []
       = (Inr False, [OnError ''Unknown error'', OnClose])
   \<and> handleNavigationStateChange sample_platform props_onError_throws callback_denied []
       = (Inl (Error ''boom''), [OnError ''User denied''])"
  by code_simp

text \<open>
  Claim C6 at a profile endpoint that answers 200 with an empty body, so that
  \<^verbatim>\<open>json()\<close> rejects with a \<^verbatim>\<open>SyntaxError\<close>: the error callback receives
  the message of that rejection, not \<^verbatim>\<open>Failed to parse profile data.\<close>. The lemmas
  \<open>fetch_profile_json_rejects\<close> and \<open>fetch_profile_falsy\<close> above say when each message
  arises on any platform.
\<close>

theorem empty_profile_body_message:
  "handleAuthCallback (sample_platform\<lparr>fetch := empty_body_fetch\<rparr>)
       (auth_params defaultProps callback_with_code) []
     = (Inr (),
        [SetIsLoading True,
         Fetch (token_request (auth_params defaultProps callback_with_code) ''test-auth-code''),
         Fetch (profile_request ''test-access-token''),
         OnError ''Unexpected end of JSON input'',
         SetIsLoading False])"
  by code_simp

text \<open>
  Claim C7, as the code has it, for a handshake started by the intercept. When the
  handshake fails before the success callback is reached, the trace is the setter, calls
  of \<^verbatim>\<open>fetch\<close>, the error callback, the setter: neither the success nor the close
  callback is called. When the handshake yields a profile, \<^verbatim>\<open>closeOnSuccess\<close> is
  true and the success callback returns, the success callback is called with the profile
  and the close callback next; what the close callback throws, if it throws, goes to
  the error callback. When the success callback throws, the close callback is not called
  and the error callback is, with what was thrown.
\<close>

theorem failure_only_onError_success_then_onClose:
  assumes "\<not> logout pr" and "classify (redirectUri_prop pr) u = RedirectSuccess"
  shows "(handshake pf (auth_params pr u) tr = (Inl e, tr1) \<longrightarrow>
            (\<exists>fs. list_all is_fetch fs \<and>
               snd (handleNavigationStateChange pf pr u tr)
                 = tr @ SetIsLoading True # fs @ [OnError (surfaced_message pf e), SetIsLoading False]))
       \<and> (handshake pf (auth_params pr u) tr = (Inr d, tr1) \<and> closeOnSuccess pr
            \<and> onSuccess_prop pr d = None \<longrightarrow>
            (\<exists>fs. list_all is_fetch fs \<and>
               snd (handleNavigationStateChange pf pr u tr)
                 = tr @ SetIsLoading True # fs @ [OnSuccess d, OnClose]
                     @ (case onClose_prop pr of
                          None \<Rightarrow> []
                        | Some e' \<Rightarrow> [OnError (surfaced_message pf e')])
                     @ [SetIsLoading False]))
       \<and> (handshake pf (auth_params pr u) tr = (Inr d, tr1) \<and> onSuccess_prop pr d = Some e \<longrightarrow>
            (\<exists>fs. list_all is_fetch fs \<and>
               snd (handleNavigationStateChange pf pr u tr)
                 = tr @ SetIsLoading True # fs
                     @ [OnSuccess d, OnError (surfaced_message pf e), SetIsLoading False]))"
proof (intro conjI impI)
  assume h: "handshake pf (auth_params pr u) tr = (Inl e, tr1)"
  then obtain fs where "list_all is_fetch fs" "tr1 = tr @ SetIsLoading True # fs"
    using auth_handshake_trace by blast
  with h assms show "\<exists>fs. list_all is_fetch fs \<and>
               snd (handleNavigationStateChange pf pr u tr)
                 = tr @ SetIsLoading True # fs @ [OnError (surfaced_message pf e), SetIsLoading False]"
    by (auto simp: handler_success auth_failure)
next
  assume a: "handshake pf (auth_params pr u) tr = (Inr d, tr1) \<and> closeOnSuccess pr
            \<and> onSuccess_prop pr d = None"
  then obtain fs where "list_all is_fetch fs" "tr1 = tr @ SetIsLoading True # fs"
    using auth_handshake_trace by blast
  with a assms show "\<exists>fs. list_all is_fetch fs \<and>
               snd (handleNavigationStateChange pf pr u tr)
                 = tr @ SetIsLoading True # fs @ [OnSuccess d, OnClose]
                     @ (case onClose_prop pr of
                          None \<Rightarrow> []
                        | Some e' \<Rightarrow> [OnError (surfaced_message pf e')])
                     @ [SetIsLoading False]"
    by (auto simp: handler_success auth_success)
next
  assume a: "handshake pf (auth_params pr u) tr = (Inr d, tr1) \<and> onSuccess_prop pr d = Some e"
  then obtain fs where "list_all is_fetch fs" "tr1 = tr @ SetIsLoading True # fs"
    using auth_handshake_trace by blast
  with a assms show "\<exists>fs. list_all is_fetch fs \<and>
               snd (handleNavigationStateChange pf pr u tr)
                 = tr @ SetIsLoading True # fs
                     @ [OnSuccess d, OnError (surfaced_message pf e), SetIsLoading False]"
    by (auto simp: handler_success auth_success_throws)
qed

theorem failure_only_onError_success_then_onClose_witness:
  "\<not> logout defaultProps
   \<and> classify (redirectUri_prop defaultProps) callback_with_code = RedirectSuccess
   \<and> closeOnSuccess defaultProps
   \<and> onSuccess_prop defaultProps mockProfileResponse = None
   \<and> (\<exists>tr1. handshake sample_platform (auth_params defaultProps callback_with_code) []
          = (Inr mockProfileResponse, tr1))
   \<and> (\<exists>fs. list_all is_fetch fs \<and>
         snd (handleNavigationStateChange sample_platform defaultProps callback_with_code [])
           = [] @ SetIsLoading True # fs @ [OnSuccess mockProfileResponse, OnClose]
               @ (case onClose_prop defaultProps of
                    None \<Rightarrow> []
                  | Some e' \<Rightarrow> [OnError (surfaced_message sample_platform e')])
               @ [SetIsLoading False])
   \<and> classify (redirectUri_prop defaultProps) ''https://test.com/callback?xcode=1'' = RedirectSuccess
   \<and> (\<exists>tr1. handshake sample_platform
          (auth_params defaultProps ''https://test.com/callback?xcode=1'') []
          = (Inl (Error ''Authentication failed. No authorization code found.''), tr1))
   \<and> (\<exists>fs. list_all is_fetch fs \<and>
         snd (handleNavigationStateChange sample_platform defaultProps
                ''https://test.com/callback?xcode=1'' [])
           = [] @ SetIsLoading True # fs
               @ [OnError (surfaced_message sample_platform
                    (Error ''Authentication failed. No authorization code found.'')),
                  SetIsLoading False])"
proof -
  have h1: "\<not> logout defaultProps" by code_simp
  have h2: "classify (redirectUri_prop defaultProps) callback_with_code = RedirectSuccess"
    by code_simp
  have h3: "closeOnSuccess defaultProps" by code_simp
  have h4: "onSuccess_prop defaultProps mockProfileResponse = None" by code_simp
  have h5: "handshake sample_platform (auth_params defaultProps callback_with_code) []
          = (Inr mockProfileResponse,
             [SetIsLoading True,
              Fetch (token_request (auth_params defaultProps callback_with_code) ''test-auth-code''),
              Fetch (profile_request ''test-access-token'')])"
    by code_simp
  have k2: "classify (redirectUri_prop defaultProps) ''https://test.com/callback?xcode=1''
      = RedirectSuccess"
    by code_simp
  have k5: "handshake sample_platform
          (auth_params defaultProps ''https://test.com/callback?xcode=1'') []
          = (Inl (Error ''Authentication failed. No authorization code found.''),
             [SetIsLoading True])"
    by code_simp
  note a = failure_only_onError_success_then_onClose
    [OF h1 h2, of sample_platform "[]" _ _ mockProfileResponse,
      THEN conjunct2, THEN conjunct1, rule_format]
  note b = failure_only_onError_success_then_onClose
    [OF h1 k2, of sample_platform "[]", THEN conjunct1, rule_format]
  from a [OF conjI [OF h5 conjI [OF h3 h4]]] b [OF k5] h1 h2 h3 h4 h5 k2 k5
  show ?thesis by blast
qed

text \<open>
  Against C7 as stated: the handshake succeeds and \<^verbatim>\<open>closeOnSuccess\<close> is true, but
  the host's success callback throws. The close callback is not called, and the error
  callback is called after the success callback.
\<close>

theorem onSuccess_throws_counterexample:
  "\<not> logout props_onSuccess_throws
   \<and> closeOnSuccess props_onSuccess_throws
   \<and> classify (redirectUri_prop props_onSuccess_throws) callback_with_code = RedirectSuccess
   \<and> handshake sample_platform (auth_params props_onSuccess_throws callback_with_code) []
     = (Inr mockProfileResponse,
        [SetIsLoading True,
         Fetch (token_request (auth_params defaultProps callback_with_code) ''test-auth-code''),
         Fetch (profile_request ''test-access-token'')])
   \<and> handleNavigationStateChange sample_platform props_onSuccess_throws callback_with_code []
     = (Inr False,
        [SetIsLoading True,
         Fetch (token_request (auth_params defaultProps callback_with_code) ''test-auth-code''),
         Fetch (profile_request ''test-access-token''),
         OnSuccess mockProfileResponse,
         OnError ''boom'',
         SetIsLoading False])"
  by code_simp

text \<open>
  Claim C8. A URL that passes the success check (it starts with \<^verbatim>\<open>redirectUri\<close> and
  contains \<^verbatim>\<open>code=\<close>) and also contains \<^verbatim>\<open>error=\<close>, or has a query parameter
  \<^verbatim>\<open>error\<close>, is classified RedirectSuccess: the intercept starts the handshake and
  never reaches the error branch.
\<close>

theorem success_check_precedes_error_check:
  assumes "\<not> logout pr"
    and "startsWith u (redirectUri_prop pr)" and "includes_str u ''code=''"
    and "includes_str u ''error='' \<or>
         (\<exists>params v. URL_searchParams pf u = Inr params \<and> searchParams_get params ''error'' = Some v)"
  shows "classify (redirectUri_prop pr) u = RedirectSuccess
       \<and> handleNavigationStateChange pf pr u tr
           = (Inr False, snd (handleAuthCallback pf (auth_params pr u) tr))"
  using assms by (simp add: handler_success classify_success_iff)

theorem success_check_precedes_error_check_witness:
  "\<not> logout defaultProps
   \<and> startsWith ''https://test.com/callback?code=abc&error=access_denied''
        (redirectUri_prop defaultProps)
   \<and> includes_str ''https://test.com/callback?code=abc&error=access_denied'' ''code=''
   \<and> includes_str ''https://test.com/callback?code=abc&error=access_denied'' ''error=''
   \<and> classify (redirectUri_prop defaultProps)
        ''https://test.com/callback?code=abc&error=access_denied'' = RedirectSuccess
   \<and> handleNavigationStateChange sample_platform defaultProps
        ''https://test.com/callback?code=abc&error=access_denied'' []
       = (Inr False,
          snd (handleAuthCallback sample_platform
            (auth_params defaultProps ''https://test.com/callback?code=abc&error=access_denied'') []))"
proof -
  let ?u = "''https://test.com/callback?code=abc&error=access_denied''"
  have h1: "\<not> logout defaultProps" by code_simp
  have h2: "startsWith ?u (redirectUri_prop defaultProps)" by code_simp
  have h3: "includes_str ?u ''code=''" by code_simp
  have h4: "includes_str ?u ''error=''" by code_simp
  from success_check_precedes_error_check [OF h1 h2 h3 disjI1 [OF h4], of sample_platform "[]"]
    h1 h2 h3 h4
  show ?thesis by (simp only: simp_thms)
qed

text \<open>
  Claim C9. Let the success and error callbacks record their calls as events and never
  throw (the setter, a dispatcher of React state, cannot throw). Then among the events
  of one run of \<^verbatim>\<open>handleAuthCallback\<close> there is exactly one call of the success
  callback or of the error callback.
\<close>

theorem exactly_one_result_callback:
  assumes "\<forall>d. f d = None" and "\<forall>m. g m = None"
  shows "length (filter is_result_callback (drop (length tr)
           (snd (handleAuthCallback pf
              (p\<lparr>onSuccess := \<lambda>d. ([OnSuccess d], f d),
                 onError := \<lambda>m. ([OnError m], g m),
                 setIsLoading := useState_setIsLoading\<rparr>) tr)))) = 1"
proof -
  let ?p = "p\<lparr>onSuccess := \<lambda>d. ([OnSuccess d], f d),
                 onError := \<lambda>m. ([OnError m], g m),
                 setIsLoading := useState_setIsLoading\<rparr>"
  obtain fs where fs: "snd (handshake pf ?p tr) = tr @ setIsLoading ?p True @ fs"
    "list_all is_fetch fs"
    using handshake_trace by blast
  obtain r tr1 where h: "handshake pf ?p tr = (r, tr1)" by (cases "handshake pf ?p tr")
  with fs have tr1: "tr1 = tr @ [SetIsLoading True] @ fs" by (simp add: useState_setIsLoading_def)
  show ?thesis
  proof (cases r)
    case (Inl e)
    with h tr1 fs(2) show ?thesis
      by (simp add: handleAuthCallback_failure useState_setIsLoading_def filter_is_result_fetches)
  next
    case (Inr d)
    with h tr1 fs(2) assms show ?thesis
      by (simp add: handleAuthCallback_success useState_setIsLoading_def filter_is_result_fetches)
  qed
qed

theorem exactly_one_result_callback_witness:
  "length (filter is_result_callback (drop (length ([] :: trace))
           (snd (handleAuthCallback sample_platform
              ((auth_params defaultProps callback_with_code)
                 \<lparr>onSuccess := \<lambda>d. ([OnSuccess d], (\<lambda>d. None) d),
                  onError := \<lambda>m. ([OnError m], (\<lambda>m. None) m),
                  setIsLoading := useState_setIsLoading\<rparr>) [])))) = 1"
  using exactly_one_result_callback [of "\<lambda>d. None" "\<lambda>m. None" "[]" sample_platform
      "auth_params defaultProps callback_with_code"]
  by simp

text \<open>
  Claim C10. Outside logout mode, when the URL contains \<^verbatim>\<open>error=\<close>, does not
  pass the success check, and the \<^verbatim>\<open>URL\<close> constructor throws on it, the intercept
  throws what the constructor threw: it returns no decision and calls no callback. The
  witness is the URL \<^verbatim>\<open>error=1\<close>, which has no scheme.
\<close>

theorem intercept_throws_on_invalid_url:
  assumes "\<not> logout pr"
    and "includes_str u ''error=''"
    and "\<not> (startsWith u (redirectUri_prop pr) \<and> includes_str u ''code='')"
    and "URL_searchParams pf u = Inl e"
  shows "handleNavigationStateChange pf pr u tr = (Inl e, tr)"
  using assms by (simp add: handler_error_throws classify_error_iff)

theorem intercept_throws_on_invalid_url_witness:
  "\<not> logout defaultProps
   \<and> includes_str ''error=1'' ''error=''
   \<and> \<not> (startsWith ''error=1'' (redirectUri_prop defaultProps) \<and> includes_str ''error=1'' ''code='')
   \<and> URL_searchParams sample_platform ''error=1'' = Inl (Error ''Invalid URL'')
   \<and> handleNavigationStateChange sample_platform defaultProps ''error=1'' []
       = (Inl (Error ''Invalid URL''), [])"
proof -
  have h1: "\<not> logout defaultProps" by code_simp
  have h2: "includes_str ''error=1'' ''error=''" by code_simp
  have h3: "\<not> (startsWith ''error=1'' (redirectUri_prop defaultProps)
              \<and> includes_str ''error=1'' ''code='')" by code_simp
  have h4: "URL_searchParams sample_platform ''error=1'' = Inl (Error ''Invalid URL'')"
    by code_simp
  from intercept_throws_on_invalid_url [OF h1 h2 h3 h4, of "[]"] h1 h2 h3 h4
  show ?thesis by (simp only: simp_thms)
qed

end
